theory Spec2Isabelle
  imports Main
begin

section \<open>Python values, exceptions and tool-call payloads\<close>

text \<open>
  The argument bag of a tool call is a Python dict decoded from JSON, and every payload
  the server returns is a Python dict handed to \<^verbatim>\<open>json.dumps\<close>. Both are values of
  one datatype. Floating-point numbers do not occur in any argument the handlers read
  and are left out.
\<close>

datatype pyval =
    PNone
  | PBool bool
  | PInt int
  | PStr string
  | PList "pyval list"
  | PDict "(string \<times> pyval) list"

text \<open>Python truthiness, as used by \<^verbatim>\<open>if x\<close>, \<^verbatim>\<open>not x\<close>, \<^verbatim>\<open>x or y\<close> and \<^verbatim>\<open>bool(x)\<close>.\<close>

fun truthy :: "pyval \<Rightarrow> bool" where
  "truthy PNone = False"
| "truthy (PBool b) = b"
| "truthy (PInt i) = (i \<noteq> 0)"
| "truthy (PStr s) = (s \<noteq> [])"
| "truthy (PList xs) = (xs \<noteq> [])"
| "truthy (PDict kvs) = (kvs \<noteq> [])"

definition py_or :: "pyval \<Rightarrow> pyval \<Rightarrow> pyval" where
  "py_or a b = (if truthy a then a else b)"

text \<open>\<^verbatim>\<open>arguments.get(key)\<close> and \<^verbatim>\<open>arguments.get(key, default)\<close>.\<close>

type_synonym arguments = "string \<Rightarrow> pyval option"

definition get :: "arguments \<Rightarrow> string \<Rightarrow> pyval" where
  "get arguments k = (case arguments k of None \<Rightarrow> PNone | Some v \<Rightarrow> v)"

definition get_default :: "arguments \<Rightarrow> string \<Rightarrow> pyval \<Rightarrow> pyval" where
  "get_default arguments k d = (case arguments k of None \<Rightarrow> d | Some v \<Rightarrow> v)"

text \<open>Exceptions are values; \<open>str_exn\<close> is Python's \<^verbatim>\<open>str(e)\<close>.\<close>

datatype exn =
    ValueError string
  | TypeError string
  | AttributeError string
  | TransportError string

fun str_exn :: "exn \<Rightarrow> string" where
  "str_exn (ValueError m) = m"
| "str_exn (TypeError m) = m"
| "str_exn (AttributeError m) = m"
| "str_exn (TransportError m) = m"

fun type_name :: "pyval \<Rightarrow> string" where
  "type_name PNone = ''NoneType''"
| "type_name (PBool b) = ''bool''"
| "type_name (PInt i) = ''int''"
| "type_name (PStr s) = ''str''"
| "type_name (PList xs) = ''list''"
| "type_name (PDict kvs) = ''dict''"

text \<open>
  \<^verbatim>\<open>str.upper()\<close>. The result is only ever compared with the ASCII constants
  \<^verbatim>\<open>"MARKDOWN"\<close> and \<^verbatim>\<open>"HTML"\<close>; no character outside ASCII has an upper-case form
  among their letters, so such characters are left as they are.
\<close>

definition upper_char :: "char \<Rightarrow> char" where
  "upper_char c =
     (let n = (of_char c :: nat) in if 97 \<le> n \<and> n \<le> 122 then char_of (n - 32) else c)"

definition upper :: "string \<Rightarrow> string" where
  "upper s = map upper_char s"

text \<open>
  A tool call returns a list of \<^verbatim>\<open>TextContent\<close> items. The text is either the
  \<^verbatim>\<open>json.dumps\<close> rendering of a dict, modelled by the dict itself, or a plain string
  built by an f-string.
\<close>

datatype text_body = Json pyval | Plain string

datatype text_content = TextContent text_body

text \<open>Reading a key of a serialized payload; \<open>None\<close> when the key is absent.\<close>

fun field :: "pyval \<Rightarrow> string \<Rightarrow> pyval option" where
  "field (PDict kvs) k = map_of kvs k"
| "field v k = None"

fun keys :: "pyval \<Rightarrow> string list" where
  "keys (PDict kvs) = map fst kvs"
| "keys v = []"

text \<open>The failure envelope every handler builds in its \<^verbatim>\<open>except\<close> branch.\<close>

definition failure_envelope :: "exn \<Rightarrow> text_content list" where
  "failure_envelope e =
     [TextContent (Json (PDict [(''success'', PBool False), (''error'', PStr (str_exn e))]))]"

section \<open>Objects returned by the transport\<close>

text \<open>
  The objects come from the aiogram library. An attribute its classes declare
  (\<^verbatim>\<open>message.message_id\<close>, \<^verbatim>\<open>update.update_id\<close>, ...) is a field of the record;
  one read through \<^verbatim>\<open>getattr(x, name, None)\<close> or typed \<^verbatim>\<open>Optional\<close> is an
  \<open>option\<close>. A datetime is given by its two renderings, \<^verbatim>\<open>isoformat()\<close> and
  \<^verbatim>\<open>str()\<close>.

  The fetch handler also reads \<^verbatim>\<open>update.update_type\<close>. aiogram's \<^verbatim>\<open>Update\<close> class
  declares \<^verbatim>\<open>event_type\<close> and no \<^verbatim>\<open>update_type\<close>, so on an object of that class
  the read raises \<^verbatim>\<open>AttributeError\<close>. The field \<open>upd_update_type\<close> is \<open>None\<close> when
  the object has no such attribute and holds its value when it has one.
\<close>

datatype datetime = Datetime (isoformat: string) (str_datetime: string)

record chat =
  c_id :: int
  c_type :: string
  c_title :: "string option"
  c_username :: "string option"
  c_first_name :: "string option"
  c_last_name :: "string option"
  c_description :: "string option"

record user =
  u_id :: int
  u_is_bot :: bool
  u_first_name :: string
  u_username :: "string option"
  u_can_join_groups :: "bool option"
  u_can_read_all_group_messages :: "bool option"
  u_supports_inline_queries :: "bool option"

record message =
  m_message_id :: int
  m_chat :: chat
  m_date :: "datetime option"
  m_text :: "string option"
  m_from_user :: "user option"

record update =
  upd_update_id :: int
  upd_update_type :: "string option"
  upd_message :: "message option"

record webhook_info =
  w_url :: string
  w_has_custom_certificate :: bool
  w_pending_update_count :: int
  w_ip_address :: "string option"
  w_last_error_date :: "datetime option"
  w_last_error_message :: "string option"
  w_max_connections :: "int option"
  w_allowed_updates :: "string list option"

definition opt_str :: "string option \<Rightarrow> pyval" where
  "opt_str x = (case x of None \<Rightarrow> PNone | Some s \<Rightarrow> PStr s)"

definition opt_int :: "int option \<Rightarrow> pyval" where
  "opt_int x = (case x of None \<Rightarrow> PNone | Some i \<Rightarrow> PInt i)"

definition opt_bool :: "bool option \<Rightarrow> pyval" where
  "opt_bool x = (case x of None \<Rightarrow> PNone | Some b \<Rightarrow> PBool b)"

section \<open>The transport: the aiogram Bot\<close>

datatype parse_mode_enum = MARKDOWN | HTML

text \<open>
  The remote API is an external collaborator: each method either raises or returns.
  A \<open>bot\<close> fixes what every method answers during one tool call; a sequence of tool
  calls takes one \<open>bot\<close> per call, so the remote side may change between calls.
\<close>

record bot =
  bot_send_message :: "pyval \<Rightarrow> pyval \<Rightarrow> parse_mode_enum option \<Rightarrow> pyval \<Rightarrow> exn + message"
  bot_send_photo :: "pyval \<Rightarrow> pyval \<Rightarrow> pyval \<Rightarrow> parse_mode_enum option \<Rightarrow> exn + message"
  bot_send_document :: "pyval \<Rightarrow> pyval \<Rightarrow> pyval \<Rightarrow> parse_mode_enum option \<Rightarrow> exn + message"
  bot_get_updates :: "int option \<Rightarrow> pyval \<Rightarrow> pyval \<Rightarrow> exn + update list"
  bot_get_me :: "exn + user"
  bot_get_chat :: "pyval \<Rightarrow> exn + chat"
  bot_get_chat_member_count :: "pyval \<Rightarrow> exn + int"
  bot_set_webhook :: "pyval \<Rightarrow> pyval \<Rightarrow> exn + bool"
  bot_delete_webhook :: "exn + bool"
  bot_get_webhook_info :: "exn + webhook_info"

text \<open>The transport calls a tool call makes, in order, with the arguments passed.\<close>

datatype bot_call =
    SendMessage pyval pyval "parse_mode_enum option" pyval
  | SendPhoto pyval pyval pyval "parse_mode_enum option"
  | SendDocument pyval pyval pyval "parse_mode_enum option"
  | GetUpdates "int option" pyval pyval
  | GetMe
  | GetChat pyval
  | GetChatMemberCount pyval
  | SetWebhook pyval pyval
  | DeleteWebhook
  | GetWebhookInfo

section \<open>TelegramClient (telegram\_client.py)\<close>

record telegram_client =
  default_chat_id :: pyval

text \<open>
  The process configuration the constructor reads: the two environment variables, and
  whether constructing the aiogram Bot from the token raises.
\<close>

record env =
  TELEGRAM_BOT_TOKEN :: "string option"
  TELEGRAM_CHAT_ID :: "string option"
  Bot :: "string \<Rightarrow> exn option"

text \<open>\<^verbatim>\<open>TelegramClient()\<close> with no constructor arguments, as the server calls it.\<close>

definition TelegramClient :: "env \<Rightarrow> exn + telegram_client" where
  "TelegramClient e =
     (let bot_token = py_or PNone (opt_str (TELEGRAM_BOT_TOKEN e));
          default = py_or PNone (opt_str (TELEGRAM_CHAT_ID e))
      in if \<not> truthy bot_token then Inl (ValueError ''Missing Telegram bot token.'')
         else case Bot e (case bot_token of PStr t \<Rightarrow> t | _ \<Rightarrow> []) of
                Some x \<Rightarrow> Inl x
              | None \<Rightarrow> Inr \<lparr>default_chat_id = default\<rparr>)"

definition quoted :: "string \<Rightarrow> string" where
  "quoted s = CHR 0x27 # s @ [CHR 0x27]"

text \<open>
  \<^verbatim>\<open>text[:50]\<close>, evaluated inside the f-string of the debug log line. Slicing a dict
  raises as well (a KeyError from Python 3.12 on); only the fact that it raises matters.
\<close>

fun slice50 :: "pyval \<Rightarrow> exn + pyval" where
  "slice50 (PStr s) = Inr (PStr (take 50 s))"
| "slice50 (PList xs) = Inr (PList (take 50 xs))"
| "slice50 (PDict kvs) = Inl (TypeError (''unhashable type: '' @ quoted ''slice''))"
| "slice50 v = Inl (TypeError (quoted (type_name v) @ '' object is not subscriptable''))"

text \<open>\<^verbatim>\<open>parse_mode.upper()\<close>: only a str has the method.\<close>

fun py_upper :: "pyval \<Rightarrow> exn + string" where
  "py_upper (PStr s) = Inr (upper s)"
| "py_upper v =
     Inl (AttributeError (quoted (type_name v) @ '' object has no attribute '' @ quoted ''upper''))"

text \<open>
  The block that converts the parse-mode string to the enum, repeated in the three send
  methods; \<open>guard\<close> is the condition of its outer \<^verbatim>\<open>if\<close>
  (\<^verbatim>\<open>parse_mode\<close> for text, \<^verbatim>\<open>parse_mode and caption\<close> for photo and document).
\<close>

definition parse_mode_enum :: "bool \<Rightarrow> pyval \<Rightarrow> exn + parse_mode_enum option" where
  "parse_mode_enum guard parse_mode =
     (if guard then
        (case py_upper parse_mode of
           Inl e \<Rightarrow> Inl e
         | Inr u \<Rightarrow>
             if u = ''MARKDOWN'' then Inr (Some MARKDOWN)
             else if u = ''HTML'' then Inr (Some HTML)
             else Inr None)
      else Inr None)"

text \<open>
  Every client method returns its result or the exception it raises, together with the
  transport calls it made. The reply arguments of \<^verbatim>\<open>send_message\<close> are never passed
  by the server and are left out.
\<close>

definition send_message ::
  "telegram_client \<Rightarrow> bot \<Rightarrow> pyval \<Rightarrow> pyval \<Rightarrow> pyval \<Rightarrow> pyval \<Rightarrow> (exn + message) \<times> bot_call list" where
  "send_message self b text chat_id parse_mode disable_notification =
     (let target_chat_id = py_or chat_id (default_chat_id self)
      in if \<not> truthy target_chat_id
         then (Inl (ValueError ''No chat_id provided and no default chat_id set''), [])
         else case slice50 text of
                Inl e \<Rightarrow> (Inl e, [])
              | Inr _ \<Rightarrow>
                  (case parse_mode_enum (truthy parse_mode) parse_mode of
                     Inl e \<Rightarrow> (Inl e, [])
                   | Inr pm \<Rightarrow>
                       (bot_send_message b target_chat_id text pm disable_notification,
                        [SendMessage target_chat_id text pm disable_notification])))"

definition send_photo ::
  "telegram_client \<Rightarrow> bot \<Rightarrow> pyval \<Rightarrow> pyval \<Rightarrow> pyval \<Rightarrow> pyval \<Rightarrow> (exn + message) \<times> bot_call list" where
  "send_photo self b photo chat_id caption parse_mode =
     (let target_chat_id = py_or chat_id (default_chat_id self)
      in if \<not> truthy target_chat_id
         then (Inl (ValueError ''No chat_id provided and no default chat_id set''), [])
         else case parse_mode_enum (truthy parse_mode \<and> truthy caption) parse_mode of
                Inl e \<Rightarrow> (Inl e, [])
              | Inr pm \<Rightarrow>
                  (bot_send_photo b target_chat_id photo caption pm,
                   [SendPhoto target_chat_id photo caption pm]))"

definition send_document ::
  "telegram_client \<Rightarrow> bot \<Rightarrow> pyval \<Rightarrow> pyval \<Rightarrow> pyval \<Rightarrow> pyval \<Rightarrow> (exn + message) \<times> bot_call list" where
  "send_document self b document chat_id caption parse_mode =
     (let target_chat_id = py_or chat_id (default_chat_id self)
      in if \<not> truthy target_chat_id
         then (Inl (ValueError ''No chat_id provided and no default chat_id set''), [])
         else case parse_mode_enum (truthy parse_mode \<and> truthy caption) parse_mode of
                Inl e \<Rightarrow> (Inl e, [])
              | Inr pm \<Rightarrow>
                  (bot_send_document b target_chat_id document caption pm,
                   [SendDocument target_chat_id document caption pm]))"

definition get_updates ::
  "telegram_client \<Rightarrow> bot \<Rightarrow> int option \<Rightarrow> pyval \<Rightarrow> pyval \<Rightarrow> (exn + update list) \<times> bot_call list" where
  "get_updates self b offset limit timeout =
     (bot_get_updates b offset limit timeout, [GetUpdates offset limit timeout])"

definition get_me :: "telegram_client \<Rightarrow> bot \<Rightarrow> (exn + user) \<times> bot_call list" where
  "get_me self b = (bot_get_me b, [GetMe])"

definition get_chat :: "telegram_client \<Rightarrow> bot \<Rightarrow> pyval \<Rightarrow> (exn + chat) \<times> bot_call list" where
  "get_chat self b chat_id = (bot_get_chat b chat_id, [GetChat chat_id])"

definition get_chat_member_count ::
  "telegram_client \<Rightarrow> bot \<Rightarrow> pyval \<Rightarrow> (exn + int) \<times> bot_call list" where
  "get_chat_member_count self b chat_id =
     (bot_get_chat_member_count b chat_id, [GetChatMemberCount chat_id])"

definition set_webhook ::
  "telegram_client \<Rightarrow> bot \<Rightarrow> pyval \<Rightarrow> pyval \<Rightarrow> (exn + bool) \<times> bot_call list" where
  "set_webhook self b url allowed_updates =
     (bot_set_webhook b url allowed_updates, [SetWebhook url allowed_updates])"

definition delete_webhook :: "telegram_client \<Rightarrow> bot \<Rightarrow> (exn + bool) \<times> bot_call list" where
  "delete_webhook self b = (bot_delete_webhook b, [DeleteWebhook])"

text \<open>
  \<^verbatim>\<open>get_webhook_info\<close> returns a dict of the eight fields of the transport's
  answer, modelled by the \<open>webhook_info\<close> record itself.
\<close>

definition get_webhook_info :: "telegram_client \<Rightarrow> bot \<Rightarrow> (exn + webhook_info) \<times> bot_call list" where
  "get_webhook_info self b = (bot_get_webhook_info b, [GetWebhookInfo])"

section \<open>TelegramMCPServer (telegram\_mcp\_server.py)\<close>

record mcp_server =
  client :: "telegram_client option"
  last_update_id :: "int option"

text \<open>The state \<^verbatim>\<open>__init__\<close> builds.\<close>

definition init_server :: mcp_server where
  "init_server = \<lparr>client = None, last_update_id = None\<rparr>"

definition initialize :: "env \<Rightarrow> mcp_server \<Rightarrow> exn + mcp_server" where
  "initialize e self =
     (case TelegramClient e of
        Inl x \<Rightarrow> Inl x
      | Inr c \<Rightarrow> Inr (self\<lparr>client := Some c\<rparr>))"

text \<open>
  A handler returns the payload, the server state after it, and the transport calls it
  made. The handlers of the source are methods whose names start with an underscore
  (\<^verbatim>\<open>_send_message\<close>, ...); here they carry the prefix \<open>srv\<close>.

  \<^verbatim>\<open>self.client.method\<close> with no client raises inside the handler's \<^verbatim>\<open>try\<close>.
\<close>

definition no_client :: "string \<Rightarrow> exn" where
  "no_client meth =
     AttributeError (quoted ''NoneType'' @ '' object has no attribute '' @ quoted meth)"

definition srv_send_message ::
  "mcp_server \<Rightarrow> bot \<Rightarrow> arguments \<Rightarrow> text_content list \<times> mcp_server \<times> bot_call list" where
  "srv_send_message self b arguments =
     (let text = get arguments ''text'';
          chat_id = get arguments ''chat_id'';
          parse_mode = get_default arguments ''parse_mode'' (PStr ''Markdown'');
          disable_notification = get_default arguments ''disable_notification'' (PBool False)
      in case client self of
           None \<Rightarrow> (failure_envelope (no_client ''send_message''), self, [])
         | Some c \<Rightarrow>
             (case send_message c b text chat_id parse_mode disable_notification of
                (Inl e, calls) \<Rightarrow> (failure_envelope e, self, calls)
              | (Inr message, calls) \<Rightarrow>
                  ([TextContent (Json (PDict
                      [(''success'', PBool True),
                       (''message_id'', PInt (m_message_id message)),
                       (''chat_id'', PInt (c_id (m_chat message))),
                       (''date'', case m_date message of
                                    None \<Rightarrow> PNone
                                  | Some d \<Rightarrow> PStr (isoformat d))]))],
                   self, calls)))"

definition srv_send_photo ::
  "mcp_server \<Rightarrow> bot \<Rightarrow> arguments \<Rightarrow> text_content list \<times> mcp_server \<times> bot_call list" where
  "srv_send_photo self b arguments =
     (let photo_url = get arguments ''photo_url'';
          caption = get arguments ''caption'';
          chat_id = get arguments ''chat_id'';
          parse_mode = get_default arguments ''parse_mode'' (PStr ''Markdown'')
      in case client self of
           None \<Rightarrow> (failure_envelope (no_client ''send_photo''), self, [])
         | Some c \<Rightarrow>
             (case send_photo c b photo_url chat_id caption parse_mode of
                (Inl e, calls) \<Rightarrow> (failure_envelope e, self, calls)
              | (Inr message, calls) \<Rightarrow>
                  ([TextContent (Json (PDict
                      [(''success'', PBool True),
                       (''message_id'', PInt (m_message_id message)),
                       (''chat_id'', PInt (c_id (m_chat message))),
                       (''has_caption'', PBool (truthy caption))]))],
                   self, calls)))"

text \<open>The document handler passes no parse mode: the client's default applies.\<close>

definition srv_send_document ::
  "mcp_server \<Rightarrow> bot \<Rightarrow> arguments \<Rightarrow> text_content list \<times> mcp_server \<times> bot_call list" where
  "srv_send_document self b arguments =
     (let document_url = get arguments ''document_url'';
          caption = get arguments ''caption'';
          chat_id = get arguments ''chat_id''
      in case client self of
           None \<Rightarrow> (failure_envelope (no_client ''send_document''), self, [])
         | Some c \<Rightarrow>
             (case send_document c b document_url chat_id caption (PStr ''Markdown'') of
                (Inl e, calls) \<Rightarrow> (failure_envelope e, self, calls)
              | (Inr message, calls) \<Rightarrow>
                  ([TextContent (Json (PDict
                      [(''success'', PBool True),
                       (''message_id'', PInt (m_message_id message)),
                       (''chat_id'', PInt (c_id (m_chat message))),
                       (''has_caption'', PBool (truthy caption))]))],
                   self, calls)))"

text \<open>
  The dict built for one update in the formatting loop. Its first two entries read
  \<^verbatim>\<open>update.update_id\<close> and \<^verbatim>\<open>update.update_type\<close>; the second read raises when the
  object has no such attribute.
\<close>

definition update_info :: "update \<Rightarrow> exn + pyval" where
  "update_info u =
     (case upd_update_type u of
        None \<Rightarrow>
          Inl (AttributeError
                 (quoted ''Update'' @ '' object has no attribute '' @ quoted ''update_type''))
      | Some ty \<Rightarrow>
          Inr (PDict
            ([(''update_id'', PInt (upd_update_id u)), (''type'', PStr ty)] @
             (case upd_message u of
                None \<Rightarrow> []
              | Some m \<Rightarrow>
                  [(''message'', PDict
                     [(''id'', PInt (m_message_id m)),
                      (''date'', case m_date m of None \<Rightarrow> PNone | Some d \<Rightarrow> PStr (isoformat d)),
                      (''text'', opt_str (m_text m)),
                      (''from'', PDict
                         [(''id'', case m_from_user m of None \<Rightarrow> PNone | Some f \<Rightarrow> PInt (u_id f)),
                          (''username'',
                             case m_from_user m of None \<Rightarrow> PNone | Some f \<Rightarrow> opt_str (u_username f)),
                          (''first_name'',
                             case m_from_user m of None \<Rightarrow> PNone | Some f \<Rightarrow> PStr (u_first_name f))]),
                      (''chat'', PDict
                         [(''id'', PInt (c_id (m_chat m))),
                          (''type'', PStr (c_type (m_chat m))),
                          (''title'', opt_str (c_title (m_chat m)))])])]))))"

text \<open>
  The formatting loop \<^verbatim>\<open>for update in updates\<close>: it appends one dict per update and
  stops at the first update whose dict cannot be built.
\<close>

fun formatted_updates :: "update list \<Rightarrow> exn + pyval list" where
  "formatted_updates [] = Inr []"
| "formatted_updates (u # us) =
     (case update_info u of
        Inl e \<Rightarrow> Inl e
      | Inr info \<Rightarrow>
          (case formatted_updates us of
             Inl e \<Rightarrow> Inl e
           | Inr infos \<Rightarrow> Inr (info # infos)))"

text \<open>
  The offset expression of the fetch handler:
  \<^verbatim>\<open>self.last_update_id + 1 if self.last_update_id else None\<close>. The condition is the
  truth value of an optional int.
\<close>

definition offset_arg :: "mcp_server \<Rightarrow> int option" where
  "offset_arg self =
     (if truthy (opt_int (last_update_id self))
      then (case last_update_id self of Some i \<Rightarrow> Some (i + 1) | None \<Rightarrow> None)
      else None)"

text \<open>
  The fetch handler. The cursor is assigned before the formatting loop, and both are
  inside the \<^verbatim>\<open>try\<close>: when the loop raises, the handler answers with the failure
  envelope and the cursor has already moved.
\<close>

definition srv_get_updates ::
  "mcp_server \<Rightarrow> bot \<Rightarrow> arguments \<Rightarrow> text_content list \<times> mcp_server \<times> bot_call list" where
  "srv_get_updates self b arguments =
     (let limit = get_default arguments ''limit'' (PInt 10);
          timeout = get_default arguments ''timeout'' (PInt 0)
      in case client self of
           None \<Rightarrow> (failure_envelope (no_client ''get_updates''), self, [])
         | Some c \<Rightarrow>
             (case get_updates c b (offset_arg self) limit timeout of
                (Inl e, calls) \<Rightarrow> (failure_envelope e, self, calls)
              | (Inr updates, calls) \<Rightarrow>
                  if updates = []
                  then ([TextContent (Json (PDict [(''updates'', PList []), (''count'', PInt 0)]))],
                        self, calls)
                  else
                    (let self' = self\<lparr>last_update_id := Some (upd_update_id (last updates))\<rparr>
                     in case formatted_updates updates of
                          Inl e \<Rightarrow> (failure_envelope e, self', calls)
                        | Inr infos \<Rightarrow>
                            ([TextContent (Json (PDict
                                [(''updates'', PList infos),
                                 (''count'', PInt (int (length infos)))]))],
                             self', calls))))"

definition srv_get_bot_info ::
  "mcp_server \<Rightarrow> bot \<Rightarrow> arguments \<Rightarrow> text_content list \<times> mcp_server \<times> bot_call list" where
  "srv_get_bot_info self b arguments =
     (case client self of
        None \<Rightarrow> (failure_envelope (no_client ''get_me''), self, [])
      | Some c \<Rightarrow>
          (case get_me c b of
             (Inl e, calls) \<Rightarrow> (failure_envelope e, self, calls)
           | (Inr bot_info, calls) \<Rightarrow>
               ([TextContent (Json (PDict
                   [(''id'', PInt (u_id bot_info)),
                    (''is_bot'', PBool (u_is_bot bot_info)),
                    (''first_name'', PStr (u_first_name bot_info)),
                    (''username'', opt_str (u_username bot_info)),
                    (''can_join_groups'', opt_bool (u_can_join_groups bot_info)),
                    (''can_read_all_group_messages'',
                       opt_bool (u_can_read_all_group_messages bot_info)),
                    (''supports_inline_queries'',
                       opt_bool (u_supports_inline_queries bot_info))]))],
                self, calls)))"

text \<open>
  The chat handler: the member count is a second transport call in a \<^verbatim>\<open>try\<close> of its
  own whose bare \<^verbatim>\<open>except\<close> passes.
\<close>

definition srv_get_chat_info ::
  "mcp_server \<Rightarrow> bot \<Rightarrow> arguments \<Rightarrow> text_content list \<times> mcp_server \<times> bot_call list" where
  "srv_get_chat_info self b arguments =
     (let chat_id = get arguments ''chat_id''
      in case client self of
           None \<Rightarrow> (failure_envelope (no_client ''get_chat''), self, [])
         | Some c \<Rightarrow>
             (case get_chat c b chat_id of
                (Inl e, calls) \<Rightarrow> (failure_envelope e, self, calls)
              | (Inr chat_info, calls) \<Rightarrow>
                  (let info =
                         [(''id'', PInt (c_id chat_info)),
                          (''type'', PStr (c_type chat_info)),
                          (''title'', opt_str (c_title chat_info)),
                          (''username'', opt_str (c_username chat_info)),
                          (''first_name'', opt_str (c_first_name chat_info)),
                          (''last_name'', opt_str (c_last_name chat_info)),
                          (''description'', opt_str (c_description chat_info))]
                   in case get_chat_member_count c b chat_id of
                        (Inl e, calls2) \<Rightarrow>
                          ([TextContent (Json (PDict info))], self, calls @ calls2)
                      | (Inr member_count, calls2) \<Rightarrow>
                          ([TextContent (Json (PDict
                              (info @ [(''member_count'', PInt member_count)])))],
                           self, calls @ calls2))))"

definition srv_set_webhook ::
  "mcp_server \<Rightarrow> bot \<Rightarrow> arguments \<Rightarrow> text_content list \<times> mcp_server \<times> bot_call list" where
  "srv_set_webhook self b arguments =
     (let url = get arguments ''url'';
          allowed_updates = get arguments ''allowed_updates''
      in case client self of
           None \<Rightarrow> (failure_envelope (no_client ''set_webhook''), self, [])
         | Some c \<Rightarrow>
             (case set_webhook c b url allowed_updates of
                (Inl e, calls) \<Rightarrow> (failure_envelope e, self, calls)
              | (Inr result, calls) \<Rightarrow>
                  ([TextContent (Json (PDict
                      [(''success'', PBool result),
                       (''webhook_url'', url),
                       (''message'',
                          PStr (if result then ''Webhook set successfully''
                                else ''Failed to set webhook''))]))],
                   self, calls)))"

definition srv_delete_webhook ::
  "mcp_server \<Rightarrow> bot \<Rightarrow> arguments \<Rightarrow> text_content list \<times> mcp_server \<times> bot_call list" where
  "srv_delete_webhook self b arguments =
     (case client self of
        None \<Rightarrow> (failure_envelope (no_client ''delete_webhook''), self, [])
      | Some c \<Rightarrow>
          (case delete_webhook c b of
             (Inl e, calls) \<Rightarrow> (failure_envelope e, self, calls)
           | (Inr result, calls) \<Rightarrow>
               ([TextContent (Json (PDict
                   [(''success'', PBool result),
                    (''message'',
                       PStr (if result then ''Webhook deleted successfully''
                             else ''Failed to delete webhook''))]))],
                self, calls)))"

text \<open>
  The webhook-info dict is dumped with \<^verbatim>\<open>default=str\<close>, which renders the error date.
\<close>

definition srv_get_webhook_info ::
  "mcp_server \<Rightarrow> bot \<Rightarrow> arguments \<Rightarrow> text_content list \<times> mcp_server \<times> bot_call list" where
  "srv_get_webhook_info self b arguments =
     (case client self of
        None \<Rightarrow> (failure_envelope (no_client ''get_webhook_info''), self, [])
      | Some c \<Rightarrow>
          (case get_webhook_info c b of
             (Inl e, calls) \<Rightarrow> (failure_envelope e, self, calls)
           | (Inr info, calls) \<Rightarrow>
               ([TextContent (Json (PDict
                   [(''url'', PStr (w_url info)),
                    (''has_custom_certificate'', PBool (w_has_custom_certificate info)),
                    (''pending_update_count'', PInt (w_pending_update_count info)),
                    (''ip_address'', opt_str (w_ip_address info)),
                    (''last_error_date'',
                       case w_last_error_date info of
                         None \<Rightarrow> PNone
                       | Some d \<Rightarrow> PStr (str_datetime d)),
                    (''last_error_message'', opt_str (w_last_error_message info)),
                    (''max_connections'', opt_int (w_max_connections info)),
                    (''allowed_updates'',
                       case w_allowed_updates info of
                         None \<Rightarrow> PNone
                       | Some xs \<Rightarrow> PList (map PStr xs))]))],
                self, calls)))"

text \<open>
  The dispatcher. The client is created on the first call; an exception of that step is
  caught by the dispatcher's own \<^verbatim>\<open>except\<close>, which answers with a plain string.
\<close>

definition call_tool ::
  "env \<Rightarrow> mcp_server \<Rightarrow> bot \<Rightarrow> string \<Rightarrow> arguments
     \<Rightarrow> text_content list \<times> mcp_server \<times> bot_call list" where
  "call_tool e self b name arguments =
     (case (if client self = None then initialize e self else Inr self) of
        Inl x \<Rightarrow> ([TextContent (Plain (''Error: '' @ str_exn x))], self, [])
      | Inr self1 \<Rightarrow>
          if name = ''telegram_send_message'' then srv_send_message self1 b arguments
          else if name = ''telegram_send_photo'' then srv_send_photo self1 b arguments
          else if name = ''telegram_send_document'' then srv_send_document self1 b arguments
          else if name = ''telegram_get_updates'' then srv_get_updates self1 b arguments
          else if name = ''telegram_get_bot_info'' then srv_get_bot_info self1 b arguments
          else if name = ''telegram_get_chat_info'' then srv_get_chat_info self1 b arguments
          else if name = ''telegram_set_webhook'' then srv_set_webhook self1 b arguments
          else if name = ''telegram_delete_webhook'' then srv_delete_webhook self1 b arguments
          else if name = ''telegram_get_webhook_info'' then srv_get_webhook_info self1 b arguments
          else ([TextContent (Plain (''Unknown tool: '' @ name))], self1, []))"

text \<open>The nine names the dispatcher knows.\<close>

definition tool_names :: "string list" where
  "tool_names =
     [''telegram_send_message'', ''telegram_send_photo'', ''telegram_send_document'',
      ''telegram_get_updates'', ''telegram_get_bot_info'', ''telegram_get_chat_info'',
      ''telegram_set_webhook'', ''telegram_delete_webhook'', ''telegram_get_webhook_info'']"


section \<open>Reading payloads and transport calls\<close>

text \<open>
  The \<^verbatim>\<open>success\<close> field of a response: \<open>None\<close> when the response is not a single
  JSON object or the object has no such key.
\<close>

fun success_of :: "text_content list \<Rightarrow> pyval option" where
  "success_of [TextContent (Json d)] = field d ''success''"
| "success_of r = None"

fun payload_keys :: "text_content list \<Rightarrow> string list" where
  "payload_keys [TextContent (Json d)] = keys d"
| "payload_keys r = []"

text \<open>The destination and the parse mode a send call hands to the transport.\<close>

fun call_target :: "bot_call \<Rightarrow> pyval option" where
  "call_target (SendMessage t x pm dn) = Some t"
| "call_target (SendPhoto t x cap pm) = Some t"
| "call_target (SendDocument t x cap pm) = Some t"
| "call_target c = None"

fun call_parse_mode :: "bot_call \<Rightarrow> parse_mode_enum option" where
  "call_parse_mode (SendMessage t x pm dn) = pm"
| "call_parse_mode (SendPhoto t x cap pm) = pm"
| "call_parse_mode (SendDocument t x cap pm) = pm"
| "call_parse_mode c = None"


section \<open>Sample transports for concrete runs\<close>

definition chat0 :: chat where
  "chat0 = \<lparr>c_id = 42, c_type = ''private'', c_title = None, c_username = Some ''ann'',
            c_first_name = Some ''Ann'', c_last_name = None, c_description = None\<rparr>"

definition user0 :: user where
  "user0 = \<lparr>u_id = 7, u_is_bot = True, u_first_name = ''Bot'', u_username = Some ''the_bot'',
            u_can_join_groups = Some True, u_can_read_all_group_messages = Some False,
            u_supports_inline_queries = Some False\<rparr>"

definition message0 :: message where
  "message0 = \<lparr>m_message_id = 100, m_chat = chat0,
               m_date = Some (Datetime ''2024-01-01T00:00:00+00:00'' ''2024-01-01 00:00:00+00:00''),
               m_text = Some ''hi'', m_from_user = None\<rparr>"

definition webhook0 :: webhook_info where
  "webhook0 = \<lparr>w_url = [], w_has_custom_certificate = False, w_pending_update_count = 0,
               w_ip_address = None, w_last_error_date = None, w_last_error_message = None,
               w_max_connections = None, w_allowed_updates = None\<rparr>"

text \<open>An update as aiogram builds it: it has no \<^verbatim>\<open>update_type\<close> attribute.\<close>

definition upd :: "int \<Rightarrow> update" where
  "upd i = \<lparr>upd_update_id = i, upd_update_type = None, upd_message = None\<rparr>"

text \<open>A transport whose every method returns, and one whose every method raises.\<close>

definition bot_ok :: bot where
  "bot_ok =
     \<lparr>bot_send_message = (\<lambda>t x pm dn. Inr message0),
      bot_send_photo = (\<lambda>t x cap pm. Inr message0),
      bot_send_document = (\<lambda>t x cap pm. Inr message0),
      bot_get_updates = (\<lambda>off lim tmo. Inr []),
      bot_get_me = Inr user0,
      bot_get_chat = (\<lambda>cid. Inr chat0),
      bot_get_chat_member_count = (\<lambda>cid. Inr 3),
      bot_set_webhook = (\<lambda>url au. Inr True),
      bot_delete_webhook = Inr True,
      bot_get_webhook_info = Inr webhook0\<rparr>"


definition env0 :: env where
  "env0 = \<lparr>TELEGRAM_BOT_TOKEN = Some ''123:abc'', TELEGRAM_CHAT_ID = Some ''999'',
           Bot = (\<lambda>t. None)\<rparr>"

text \<open>A server whose client exists, with and without a default destination.\<close>

definition server0 :: mcp_server where
  "server0 = \<lparr>client = Some \<lparr>default_chat_id = PStr ''999''\<rparr>, last_update_id = None\<rparr>"

definition server_nodefault :: mcp_server where
  "server_nodefault = \<lparr>client = Some \<lparr>default_chat_id = PNone\<rparr>, last_update_id = None\<rparr>"

section \<open>Parse mode of captioned media\<close>

lemma parse_mode_enum_unguarded: "parse_mode_enum False pm = Inr None"
  by (simp add: parse_mode_enum_def)

lemma send_photo_falsy_caption:
  assumes "\<not> truthy caption"
  shows "send_photo self b photo chat_id caption parse_mode =
     (if truthy (py_or chat_id (default_chat_id self))
      then (bot_send_photo b (py_or chat_id (default_chat_id self)) photo caption None,
            [SendPhoto (py_or chat_id (default_chat_id self)) photo caption None])
      else (Inl (ValueError ''No chat_id provided and no default chat_id set''), []))"
  using assms
  by (simp add: send_photo_def parse_mode_enum_unguarded Let_def)

lemma send_document_falsy_caption:
  assumes "\<not> truthy caption"
  shows "send_document self b document chat_id caption parse_mode =
     (if truthy (py_or chat_id (default_chat_id self))
      then (bot_send_document b (py_or chat_id (default_chat_id self)) document caption None,
            [SendDocument (py_or chat_id (default_chat_id self)) document caption None])
      else (Inl (ValueError ''No chat_id provided and no default chat_id set''), []))"
  using assms
  by (simp add: send_document_def parse_mode_enum_unguarded Let_def)

text \<open>
  Claim C10. In \<open>send_photo\<close> and \<open>send_document\<close> the parse mode is converted only
  under \<^verbatim>\<open>if parse_mode and caption\<close>. So when the caption is absent or empty (any
  falsy value), every call handed to the transport carries parse mode \<open>None\<close>, whatever
  the \<open>parse_mode\<close> argument is; and when a destination resolves, exactly that one call
  is made.
\<close>

theorem send_photo_document_parse_mode_needs_caption:
  assumes "\<not> truthy caption"
  shows "(\<forall>call \<in> set (snd (send_photo self b photo chat_id caption parse_mode)).
            call_parse_mode call = None)
       \<and> (\<forall>call \<in> set (snd (send_document self b document chat_id caption parse_mode)).
            call_parse_mode call = None)
       \<and> (truthy (py_or chat_id (default_chat_id self)) \<longrightarrow>
            snd (send_photo self b photo chat_id caption parse_mode)
              = [SendPhoto (py_or chat_id (default_chat_id self)) photo caption None]
          \<and> snd (send_document self b document chat_id caption parse_mode)
              = [SendDocument (py_or chat_id (default_chat_id self)) document caption None])"
  by (simp add: send_photo_falsy_caption [OF assms] send_document_falsy_caption [OF assms])

theorem send_photo_document_parse_mode_needs_caption_witness:
  "\<not> truthy (PStr [])
   \<and> snd (send_photo \<lparr>default_chat_id = PNone\<rparr> bot_ok (PStr ''p.png'') (PStr ''5'') (PStr []) (PStr ''HTML''))
       = [SendPhoto (PStr ''5'') (PStr ''p.png'') (PStr []) None]
   \<and> snd (send_document \<lparr>default_chat_id = PNone\<rparr> bot_ok (PStr ''d.pdf'') (PStr ''5'') (PStr []) (PStr ''HTML''))
       = [SendDocument (PStr ''5'') (PStr ''d.pdf'') (PStr []) None]"
proof -
  have h: "\<not> truthy (PStr [])" by simp
  have t: "truthy (py_or (PStr ''5'') (default_chat_id \<lparr>default_chat_id = PNone\<rparr>))"
    by (simp add: py_or_def)
  have e: "py_or (PStr ''5'') (default_chat_id \<lparr>default_chat_id = PNone\<rparr>) = PStr ''5''"
    by (simp add: py_or_def)
  from send_photo_document_parse_mode_needs_caption [OF h, where self = "\<lparr>default_chat_id = PNone\<rparr>"
      and chat_id = "PStr ''5''" and b = bot_ok and photo = "PStr ''p.png''" and document = "PStr ''d.pdf''"
      and parse_mode = "PStr ''HTML''"] t
  show ?thesis unfolding e using h by blast
qed

section \<open>The dispatcher and the failure envelope\<close>


lemma call_tool_init_failure:
  assumes "(if client self = None then initialize e self else Inr self) = Inl x"
  shows "call_tool e self b name arguments = ([TextContent (Plain (''Error: '' @ str_exn x))], self, [])"
  using assms by (simp add: call_tool_def)

lemma call_tool_has_client:
  assumes "client self = Some c"
  shows "(if client self = None then initialize e self else Inr self) = Inr self"
  using assms by simp










lemma call_tool_dispatch:
  assumes "(if client self = None then initialize e self else Inr self) = Inr self1"
  shows "call_tool e self b name arguments =
          (if name = ''telegram_send_message'' then srv_send_message self1 b arguments
           else if name = ''telegram_send_photo'' then srv_send_photo self1 b arguments
           else if name = ''telegram_send_document'' then srv_send_document self1 b arguments
           else if name = ''telegram_get_updates'' then srv_get_updates self1 b arguments
           else if name = ''telegram_get_bot_info'' then srv_get_bot_info self1 b arguments
           else if name = ''telegram_get_chat_info'' then srv_get_chat_info self1 b arguments
           else if name = ''telegram_set_webhook'' then srv_set_webhook self1 b arguments
           else if name = ''telegram_delete_webhook'' then srv_delete_webhook self1 b arguments
           else if name = ''telegram_get_webhook_info'' then srv_get_webhook_info self1 b arguments
           else ([TextContent (Plain (''Unknown tool: '' @ name))], self1, []))"
  using assms by (simp add: call_tool_def)

lemma single_send_message: "length (fst (srv_send_message self b arguments)) = Suc 0"
  by (auto simp: srv_send_message_def failure_envelope_def Let_def split: option.splits prod.splits sum.splits)

lemma single_send_photo: "length (fst (srv_send_photo self b arguments)) = Suc 0"
  by (auto simp: srv_send_photo_def failure_envelope_def Let_def split: option.splits prod.splits sum.splits)

lemma single_send_document: "length (fst (srv_send_document self b arguments)) = Suc 0"
  by (auto simp: srv_send_document_def failure_envelope_def Let_def split: option.splits prod.splits sum.splits)

lemma single_get_updates: "length (fst (srv_get_updates self b arguments)) = Suc 0"
  by (auto simp: srv_get_updates_def failure_envelope_def Let_def split: option.splits prod.splits sum.splits)

lemma single_get_bot_info: "length (fst (srv_get_bot_info self b arguments)) = Suc 0"
  by (auto simp: srv_get_bot_info_def failure_envelope_def Let_def split: option.splits prod.splits sum.splits)

lemma single_get_chat_info: "length (fst (srv_get_chat_info self b arguments)) = Suc 0"
  by (auto simp: srv_get_chat_info_def failure_envelope_def Let_def split: option.splits prod.splits sum.splits)

lemma single_set_webhook: "length (fst (srv_set_webhook self b arguments)) = Suc 0"
  by (auto simp: srv_set_webhook_def failure_envelope_def Let_def split: option.splits prod.splits sum.splits)

lemma single_delete_webhook: "length (fst (srv_delete_webhook self b arguments)) = Suc 0"
  by (auto simp: srv_delete_webhook_def failure_envelope_def Let_def split: option.splits prod.splits sum.splits)

lemma single_get_webhook_info: "length (fst (srv_get_webhook_info self b arguments)) = Suc 0"
  by (auto simp: srv_get_webhook_info_def failure_envelope_def Let_def split: option.splits prod.splits sum.splits)

lemmas single_handler =
  single_send_message single_send_photo single_send_document single_get_updates
  single_get_bot_info single_get_chat_info single_set_webhook single_delete_webhook
  single_get_webhook_info

lemma call_tool_single: "length (fst (call_tool e self b name arguments)) = Suc 0"
proof (cases "if client self = None then initialize e self else Inr self")
  case (Inl x)
  then show ?thesis by (simp add: call_tool_init_failure)
next
  case (Inr self1)
  show ?thesis
    unfolding call_tool_dispatch [OF Inr]
    by (simp add: single_handler)
qed



section \<open>Unknown tool names\<close>

lemma unknown_name_dispatch:
  assumes "name \<notin> set tool_names"
    and "(if client self = None then initialize e self else Inr self) = Inr self1"
  shows "call_tool e self b name arguments
           = ([TextContent (Plain (''Unknown tool: '' @ name))], self1, [])"
  using assms(1) unfolding call_tool_dispatch [OF assms(2)] tool_names_def
  by simp

text \<open>
  Claim C4, as stated, fails: for a name outside the nine, the dispatcher does not build
  a JSON envelope. Its \<^verbatim>\<open>else\<close> branch returns the plain string
  \<^verbatim>\<open>Unknown tool: <name>\<close>, which has no \<^verbatim>\<open>success\<close> field.
\<close>

theorem unknown_tool_counterexample:
  "fst (call_tool env0 server0 bot_ok ''telegram_bogus'' Map.empty)
     = [TextContent (Plain ''Unknown tool: telegram_bogus'')]
   \<and> success_of (fst (call_tool env0 server0 bot_ok ''telegram_bogus'' Map.empty))
       \<noteq> Some (PBool False)"
  by (simp add: call_tool_def server0_def)

text \<open>
  Claim C4, amended. For every name outside the nine, the dispatcher returns one
  plain-text item and makes no transport call; nothing is raised. The item has no
  \<^verbatim>\<open>success\<close> field. When the client exists or can be created, the text is
  \<^verbatim>\<open>Unknown tool: <name>\<close> (otherwise it is the \<^verbatim>\<open>Error: ...\<close> text of the
  failed initialisation).
\<close>

theorem unknown_tool_plain_text:
  assumes "name \<notin> set tool_names"
  shows "(\<exists>t. fst (call_tool e self b name arguments) = [TextContent (Plain t)])
       \<and> success_of (fst (call_tool e self b name arguments)) = None
       \<and> snd (snd (call_tool e self b name arguments)) = []
       \<and> ((if client self = None then initialize e self else Inr self) = Inr self1 \<longrightarrow>
            call_tool e self b name arguments
              = ([TextContent (Plain (''Unknown tool: '' @ name))], self1, []))"
proof (cases "if client self = None then initialize e self else Inr self")
  case (Inl x)
  then show ?thesis by (simp add: call_tool_init_failure)
next
  case (Inr s)
  then show ?thesis by (simp add: unknown_name_dispatch [OF assms Inr])
qed

text \<open>The amended C4 on a fresh server: the client is created, then the name is refused.\<close>

theorem unknown_tool_plain_text_witness:
  "''telegram_bogus'' \<notin> set tool_names
   \<and> call_tool env0 init_server bot_ok ''telegram_bogus'' Map.empty
       = ([TextContent (Plain ''Unknown tool: telegram_bogus'')], server0, [])"
proof -
  have n: "''telegram_bogus'' \<notin> set tool_names" by (simp add: tool_names_def)
  have i: "(if client init_server = None then initialize env0 init_server else Inr init_server)
             = Inr server0"
    by (simp add: init_server_def initialize_def TelegramClient_def env0_def server0_def
          opt_str_def py_or_def)
  from unknown_tool_plain_text [OF n, of env0 init_server bot_ok Map.empty server0] i
  have "call_tool env0 init_server bot_ok ''telegram_bogus'' Map.empty
       = ([TextContent (Plain (''Unknown tool: '' @ ''telegram_bogus''))], server0, [])"
    by blast
  with n show ?thesis by simp
qed

section \<open>The update cursor\<close>

lemma offset_arg_unset: "last_update_id self = None \<Longrightarrow> offset_arg self = None"
  by (simp add: offset_arg_def opt_int_def)

lemma offset_arg_nonzero:
  "last_update_id self = Some i \<Longrightarrow> i \<noteq> 0 \<Longrightarrow> offset_arg self = Some (i + 1)"
  by (simp add: offset_arg_def opt_int_def)

lemma offset_arg_zero: "last_update_id self = Some 0 \<Longrightarrow> offset_arg self = None"
  by (simp add: offset_arg_def opt_int_def)


text \<open>
  Claim C2 at the input where the code departs from it. A fresh server pulls a
  batch whose last update has identifier 0. The cursor is then set (to 0), so the next
  offset should be 1; but the offset expression tests the truth value of the cursor,
  and the next pull passes no offset.
\<close>

theorem offset_after_update_id_zero:
  "last_update_id (fst (snd (call_tool env0 server0
       (bot_ok\<lparr>bot_get_updates := (\<lambda>off lim tmo. Inr [upd 0])\<rparr>)
       ''telegram_get_updates'' Map.empty))) = Some 0
   \<and> snd (snd (call_tool env0
       (fst (snd (call_tool env0 server0
          (bot_ok\<lparr>bot_get_updates := (\<lambda>off lim tmo. Inr [upd 0])\<rparr>)
          ''telegram_get_updates'' Map.empty)))
       bot_ok ''telegram_get_updates'' Map.empty))
     = [GetUpdates None (PInt 10) (PInt 0)]"
  by (simp add: call_tool_def server0_def srv_get_updates_def get_updates_def offset_arg_def
        opt_int_def get_default_def upd_def update_info_def bot_ok_def Let_def)

















section \<open>Resolving the destination\<close>

lemma send_message_targets:
  "\<forall>call \<in> set (snd (send_message self b text chat_id parse_mode disable_notification)).
     call_target call = Some (py_or chat_id (default_chat_id self))"
  by (auto simp: send_message_def Let_def split: sum.splits)

lemma send_photo_targets:
  "\<forall>call \<in> set (snd (send_photo self b photo chat_id caption parse_mode)).
     call_target call = Some (py_or chat_id (default_chat_id self))"
  by (auto simp: send_photo_def Let_def split: sum.splits)

lemma send_document_targets:
  "\<forall>call \<in> set (snd (send_document self b document chat_id caption parse_mode)).
     call_target call = Some (py_or chat_id (default_chat_id self))"
  by (auto simp: send_document_def Let_def split: sum.splits)

lemma send_message_no_target:
  "\<not> truthy (py_or chat_id (default_chat_id self)) \<Longrightarrow>
     send_message self b text chat_id parse_mode disable_notification
       = (Inl (ValueError ''No chat_id provided and no default chat_id set''), [])"
  by (simp add: send_message_def Let_def)

lemma send_photo_no_target:
  "\<not> truthy (py_or chat_id (default_chat_id self)) \<Longrightarrow>
     send_photo self b photo chat_id caption parse_mode
       = (Inl (ValueError ''No chat_id provided and no default chat_id set''), [])"
  by (simp add: send_photo_def Let_def)

lemma send_document_no_target:
  "\<not> truthy (py_or chat_id (default_chat_id self)) \<Longrightarrow>
     send_document self b document chat_id caption parse_mode
       = (Inl (ValueError ''No chat_id provided and no default chat_id set''), [])"
  by (simp add: send_document_def Let_def)

text \<open>The transport calls of the three send handlers are those of the client method.\<close>

lemma calls_srv_send_message:
  "client self = Some c \<Longrightarrow>
     snd (snd (srv_send_message self b arguments))
       = snd (send_message c b (get arguments ''text'') (get arguments ''chat_id'')
                (get_default arguments ''parse_mode'' (PStr ''Markdown''))
                (get_default arguments ''disable_notification'' (PBool False)))"
  by (auto simp: srv_send_message_def Let_def split: prod.splits sum.splits)

lemma calls_srv_send_photo:
  "client self = Some c \<Longrightarrow>
     snd (snd (srv_send_photo self b arguments))
       = snd (send_photo c b (get arguments ''photo_url'') (get arguments ''chat_id'')
                (get arguments ''caption'')
                (get_default arguments ''parse_mode'' (PStr ''Markdown'')))"
  by (auto simp: srv_send_photo_def Let_def split: prod.splits sum.splits)

lemma calls_srv_send_document:
  "client self = Some c \<Longrightarrow>
     snd (snd (srv_send_document self b arguments))
       = snd (send_document c b (get arguments ''document_url'') (get arguments ''chat_id'')
                (get arguments ''caption'') (PStr ''Markdown''))"
  by (auto simp: srv_send_document_def Let_def split: prod.splits sum.splits)

lemma srv_send_message_no_target:
  assumes "client self = Some c"
    and "\<not> truthy (py_or (get arguments ''chat_id'') (default_chat_id c))"
  shows "srv_send_message self b arguments
           = (failure_envelope (ValueError ''No chat_id provided and no default chat_id set''),
              self, [])"
  using assms by (simp add: srv_send_message_def Let_def send_message_no_target)

lemma srv_send_photo_no_target:
  assumes "client self = Some c"
    and "\<not> truthy (py_or (get arguments ''chat_id'') (default_chat_id c))"
  shows "srv_send_photo self b arguments
           = (failure_envelope (ValueError ''No chat_id provided and no default chat_id set''),
              self, [])"
  using assms by (simp add: srv_send_photo_def Let_def send_photo_no_target)

lemma srv_send_document_no_target:
  assumes "client self = Some c"
    and "\<not> truthy (py_or (get arguments ''chat_id'') (default_chat_id c))"
  shows "srv_send_document self b arguments
           = (failure_envelope (ValueError ''No chat_id provided and no default chat_id set''),
              self, [])"
  using assms by (simp add: srv_send_document_def Let_def send_document_no_target)

lemma upper_Markdown: "upper ''Markdown'' = ''MARKDOWN''"
  by code_simp

text \<open>
  Claim C5, as stated, fails in its first part: the destination is
  \<^verbatim>\<open>chat_id or self.default_chat_id\<close>, so a supplied but empty \<^verbatim>\<open>chat_id\<close> is not used;
  the message goes to the default destination.
\<close>

theorem empty_chat_id_counterexample:
  "get [''text'' \<mapsto> PStr ''hi'', ''chat_id'' \<mapsto> PStr []] ''chat_id'' = PStr []
   \<and> snd (snd (call_tool env0 server0 bot_ok ''telegram_send_message''
                  [''text'' \<mapsto> PStr ''hi'', ''chat_id'' \<mapsto> PStr []]))
       = [SendMessage (PStr ''999'') (PStr ''hi'') (Some MARKDOWN) (PBool False)]"
  by (simp add: call_tool_def server0_def srv_send_message_def send_message_def get_def
        get_default_def py_or_def parse_mode_enum_def upper_Markdown bot_ok_def Let_def)

text \<open>
  Claim C5, amended. For the three send actions, every call handed to the transport is
  addressed to the \<^verbatim>\<open>chat_id\<close> argument when that argument is truthy (a non-empty
  string, a non-zero number), and to the default destination otherwise. When neither is
  truthy the handler answers with the failure envelope of the \<^verbatim>\<open>ValueError\<close> and the
  transport is not called at all.
\<close>

theorem destination_resolution:
  assumes "client self = Some c"
  shows
    "(\<forall>call \<in> set (snd (snd (srv_send_message self b arguments)))
              \<union> set (snd (snd (srv_send_photo self b arguments)))
              \<union> set (snd (snd (srv_send_document self b arguments))).
        call_target call =
          Some (if truthy (get arguments ''chat_id'') then get arguments ''chat_id''
                else default_chat_id c))
   \<and> (\<not> truthy (get arguments ''chat_id'') \<and> \<not> truthy (default_chat_id c) \<longrightarrow>
        srv_send_message self b arguments
          = (failure_envelope (ValueError ''No chat_id provided and no default chat_id set''),
             self, [])
      \<and> srv_send_photo self b arguments
          = (failure_envelope (ValueError ''No chat_id provided and no default chat_id set''),
             self, [])
      \<and> srv_send_document self b arguments
          = (failure_envelope (ValueError ''No chat_id provided and no default chat_id set''),
             self, []))"
proof -
  have t: "\<forall>call \<in> set (snd (snd (srv_send_message self b arguments)))
              \<union> set (snd (snd (srv_send_photo self b arguments)))
              \<union> set (snd (snd (srv_send_document self b arguments))).
        call_target call =
          Some (if truthy (get arguments ''chat_id'') then get arguments ''chat_id''
                else default_chat_id c)"
    unfolding calls_srv_send_message [OF assms] calls_srv_send_photo [OF assms]
      calls_srv_send_document [OF assms] py_or_def [symmetric]
    by (simp add: ball_Un send_message_targets send_photo_targets send_document_targets)
  have n: "\<not> truthy (get arguments ''chat_id'') \<and> \<not> truthy (default_chat_id c) \<longrightarrow>
        \<not> truthy (py_or (get arguments ''chat_id'') (default_chat_id c))"
    by (simp add: py_or_def)
  from t n show ?thesis
    using srv_send_message_no_target [OF assms] srv_send_photo_no_target [OF assms]
      srv_send_document_no_target [OF assms]
    by blast
qed

text \<open>
  The amended C5 with an explicit destination, and with neither an argument nor a
  default.
\<close>

theorem destination_resolution_witness:
  "snd (snd (srv_send_message server0 bot_ok [''text'' \<mapsto> PStr ''hi'', ''chat_id'' \<mapsto> PStr ''5'']))
     = [SendMessage (PStr ''5'') (PStr ''hi'') (Some MARKDOWN) (PBool False)]
   \<and> call_target (SendMessage (PStr ''5'') (PStr ''hi'') (Some MARKDOWN) (PBool False))
       = Some (PStr ''5'')
   \<and> srv_send_photo server_nodefault bot_ok [''photo_url'' \<mapsto> PStr ''p.png'']
       = (failure_envelope (ValueError ''No chat_id provided and no default chat_id set''),
          server_nodefault, [])"
proof -
  let ?a = "[''text'' \<mapsto> PStr ''hi'', ''chat_id'' \<mapsto> PStr ''5'']"
  let ?p = "[''photo_url'' \<mapsto> PStr ''p.png'']"
  have c0: "client server0 = Some \<lparr>default_chat_id = PStr ''999''\<rparr>"
    by (simp add: server0_def)
  have cn: "client server_nodefault = Some \<lparr>default_chat_id = PNone\<rparr>"
    by (simp add: server_nodefault_def)
  have calls: "snd (snd (srv_send_message server0 bot_ok ?a))
     = [SendMessage (PStr ''5'') (PStr ''hi'') (Some MARKDOWN) (PBool False)]"
    by (simp add: server0_def srv_send_message_def send_message_def get_def
        get_default_def py_or_def parse_mode_enum_def upper_Markdown bot_ok_def Let_def)
  from destination_resolution [OF c0, of bot_ok ?a] calls
  have 1: "call_target (SendMessage (PStr ''5'') (PStr ''hi'') (Some MARKDOWN) (PBool False))
       = Some (PStr ''5'')"
    by (simp add: get_def)
  have f: "\<not> truthy (get ?p ''chat_id'') \<and> \<not> truthy (default_chat_id \<lparr>default_chat_id = PNone\<rparr>)"
    by (simp add: get_def)
  from destination_resolution [OF cn, of bot_ok ?p] f
  have 2: "srv_send_photo server_nodefault bot_ok ?p
       = (failure_envelope (ValueError ''No chat_id provided and no default chat_id set''),
          server_nodefault, [])"
    by blast
  from calls 1 2 show ?thesis by blast
qed

section \<open>Parse modes\<close>








section \<open>Payloads of successful calls\<close>

lemma srv_send_message_success:
  assumes "client self = Some c"
    and "fst (send_message c b (get arguments ''text'') (get arguments ''chat_id'')
           (get_default arguments ''parse_mode'' (PStr ''Markdown''))
           (get_default arguments ''disable_notification'' (PBool False))) = Inr m"
  shows "fst (srv_send_message self b arguments) =
           [TextContent (Json (PDict
              [(''success'', PBool True),
               (''message_id'', PInt (m_message_id m)),
               (''chat_id'', PInt (c_id (m_chat m))),
               (''date'', case m_date m of None \<Rightarrow> PNone | Some d \<Rightarrow> PStr (isoformat d))]))]"
  using assms
  by (auto simp: srv_send_message_def Let_def split: prod.splits sum.splits)

lemma srv_send_photo_success:
  assumes "client self = Some c"
    and "fst (send_photo c b (get arguments ''photo_url'') (get arguments ''chat_id'')
           (get arguments ''caption'') (get_default arguments ''parse_mode'' (PStr ''Markdown''))) = Inr m"
  shows "fst (srv_send_photo self b arguments) =
           [TextContent (Json (PDict
              [(''success'', PBool True),
               (''message_id'', PInt (m_message_id m)),
               (''chat_id'', PInt (c_id (m_chat m))),
               (''has_caption'', PBool (truthy (get arguments ''caption'')))]))]"
  using assms
  by (auto simp: srv_send_photo_def Let_def split: prod.splits sum.splits)

lemma srv_send_document_success:
  assumes "client self = Some c"
    and "fst (send_document c b (get arguments ''document_url'') (get arguments ''chat_id'')
           (get arguments ''caption'') (PStr ''Markdown'')) = Inr m"
  shows "fst (srv_send_document self b arguments) =
           [TextContent (Json (PDict
              [(''success'', PBool True),
               (''message_id'', PInt (m_message_id m)),
               (''chat_id'', PInt (c_id (m_chat m))),
               (''has_caption'', PBool (truthy (get arguments ''caption'')))]))]"
  using assms
  by (auto simp: srv_send_document_def Let_def split: prod.splits sum.splits)

lemma srv_get_updates_empty:
  assumes "client self = Some c"
    and "fst (get_updates c b (offset_arg self) (get_default arguments ''limit'' (PInt 10))
           (get_default arguments ''timeout'' (PInt 0))) = Inr []"
  shows "fst (srv_get_updates self b arguments) =
           [TextContent (Json (PDict [(''updates'', PList []), (''count'', PInt 0)]))]"
  using assms
  by (auto simp: srv_get_updates_def Let_def split: prod.splits sum.splits)

lemma srv_get_updates_never_success_true:
  assumes "client self = Some c"
  shows "success_of (fst (srv_get_updates self b arguments)) \<noteq> Some (PBool True)"
  using assms
  by (auto simp: srv_get_updates_def failure_envelope_def Let_def
           split: prod.splits sum.splits)

text \<open>
  A non-empty batch whose formatting raises: the answer is the failure envelope and the
  cursor has moved to the last identifier of the batch.
\<close>

lemma srv_get_updates_format_failure:
  assumes "client self = Some c"
    and "get_updates c b (offset_arg self) (get_default arguments ''limit'' (PInt 10))
           (get_default arguments ''timeout'' (PInt 0)) = (Inr updates, calls)"
    and "updates \<noteq> []"
    and "formatted_updates updates = Inl x"
  shows "srv_get_updates self b arguments =
           (failure_envelope x,
            self\<lparr>last_update_id := Some (upd_update_id (last updates))\<rparr>, calls)"
  using assms
  by (simp add: srv_get_updates_def Let_def)

lemma formatted_updates_without_update_type:
  assumes "updates \<noteq> []" and "\<forall>u \<in> set updates. upd_update_type u = None"
  shows "formatted_updates updates =
           Inl (AttributeError
                  (quoted ''Update'' @ '' object has no attribute '' @ quoted ''update_type''))"
  using assms
  by (cases updates) (simp_all add: update_info_def)

text \<open>
  On a batch of one update as aiogram builds it, the fetch answers with the failure
  envelope of the \<^verbatim>\<open>AttributeError\<close>, and the cursor is 7 afterwards.
\<close>

lemma fetch_without_update_type:
  "call_tool env0 server0 (bot_ok\<lparr>bot_get_updates := (\<lambda>off lim tmo. Inr [upd 7])\<rparr>)
     ''telegram_get_updates'' Map.empty =
     (failure_envelope
        (AttributeError
           (quoted ''Update'' @ '' object has no attribute '' @ quoted ''update_type'')),
      server0\<lparr>last_update_id := Some 7\<rparr>,
      [GetUpdates None (PInt 10) (PInt 0)])"
  by (simp add: call_tool_def server0_def srv_get_updates_def get_updates_def offset_arg_def
        opt_int_def get_default_def upd_def update_info_def Let_def)

lemma srv_get_bot_info_success:
  assumes "client self = Some c" and "fst (get_me c b) = Inr u"
  shows "payload_keys (fst (srv_get_bot_info self b arguments)) =
           [''id'', ''is_bot'', ''first_name'', ''username'', ''can_join_groups'',
            ''can_read_all_group_messages'', ''supports_inline_queries'']"
    and "success_of (fst (srv_get_bot_info self b arguments)) = None"
  using assms
  by (auto simp: srv_get_bot_info_def Let_def split: prod.splits sum.splits)

lemma srv_get_chat_info_success:
  assumes "client self = Some c" and "fst (get_chat c b (get arguments ''chat_id'')) = Inr ch"
  shows "success_of (fst (srv_get_chat_info self b arguments)) = None"
  using assms
  by (auto simp: srv_get_chat_info_def Let_def split: prod.splits sum.splits)

lemma srv_get_webhook_info_success:
  assumes "client self = Some c" and "fst (get_webhook_info c b) = Inr w"
  shows "payload_keys (fst (srv_get_webhook_info self b arguments)) =
           [''url'', ''has_custom_certificate'', ''pending_update_count'', ''ip_address'',
            ''last_error_date'', ''last_error_message'', ''max_connections'', ''allowed_updates'']"
    and "success_of (fst (srv_get_webhook_info self b arguments)) = None"
  using assms
  by (auto simp: srv_get_webhook_info_def Let_def split: prod.splits sum.splits)

lemma srv_set_webhook_success:
  assumes "client self = Some c"
    and "fst (set_webhook c b (get arguments ''url'') (get arguments ''allowed_updates'')) = Inr r"
  shows "fst (srv_set_webhook self b arguments) =
           [TextContent (Json (PDict
              [(''success'', PBool r),
               (''webhook_url'', get arguments ''url''),
               (''message'', PStr (if r then ''Webhook set successfully''
                                   else ''Failed to set webhook''))]))]"
  using assms
  by (auto simp: srv_set_webhook_def Let_def split: prod.splits sum.splits)

lemma srv_delete_webhook_success:
  assumes "client self = Some c" and "fst (delete_webhook c b) = Inr r"
  shows "fst (srv_delete_webhook self b arguments) =
           [TextContent (Json (PDict
              [(''success'', PBool r),
               (''message'', PStr (if r then ''Webhook deleted successfully''
                                   else ''Failed to delete webhook''))]))]"
  using assms
  by (auto simp: srv_delete_webhook_def Let_def split: prod.splits sum.splits)

lemma srv_get_chat_info_partial:
  assumes "client self = Some c"
    and "fst (get_chat c b (get arguments ''chat_id'')) = Inr ch"
    and "fst (get_chat_member_count c b (get arguments ''chat_id'')) = Inl x"
  shows "srv_get_chat_info self b arguments =
           ([TextContent (Json (PDict
               [(''id'', PInt (c_id ch)),
                (''type'', PStr (c_type ch)),
                (''title'', opt_str (c_title ch)),
                (''username'', opt_str (c_username ch)),
                (''first_name'', opt_str (c_first_name ch)),
                (''last_name'', opt_str (c_last_name ch)),
                (''description'', opt_str (c_description ch))]))],
            self,
            [GetChat (get arguments ''chat_id''), GetChatMemberCount (get arguments ''chat_id'')])"
  using assms
  by (auto simp: srv_get_chat_info_def get_chat_def get_chat_member_count_def Let_def
           split: prod.splits sum.splits)

lemma srv_get_chat_info_full:
  assumes "client self = Some c"
    and "fst (get_chat c b (get arguments ''chat_id'')) = Inr ch"
    and "fst (get_chat_member_count c b (get arguments ''chat_id'')) = Inr n"
  shows "payload_keys (fst (srv_get_chat_info self b arguments)) =
           [''id'', ''type'', ''title'', ''username'', ''first_name'', ''last_name'',
            ''description'', ''member_count'']"
  using assms
  by (auto simp: srv_get_chat_info_def get_chat_def get_chat_member_count_def Let_def
           split: prod.splits sum.splits)

text \<open>
  Claim C7, as stated, fails in its first part: not every action wraps its result as
  \<^verbatim>\<open>{success: true, ...}\<close>. The payload of a successful get-bot-info is the bare
  info dict, with no \<^verbatim>\<open>success\<close> field.
\<close>

theorem bot_info_success_flag_counterexample:
  "fst (call_tool env0 server0 bot_ok ''telegram_get_bot_info'' Map.empty) =
     [TextContent (Json (PDict
        [(''id'', PInt 7), (''is_bot'', PBool True), (''first_name'', PStr ''Bot''),
         (''username'', PStr ''the_bot''), (''can_join_groups'', PBool True),
         (''can_read_all_group_messages'', PBool False),
         (''supports_inline_queries'', PBool False)]))]
   \<and> success_of (fst (call_tool env0 server0 bot_ok ''telegram_get_bot_info'' Map.empty))
       \<noteq> Some (PBool True)"
  by (simp add: call_tool_def server0_def srv_get_bot_info_def get_me_def bot_ok_def user0_def
        opt_str_def opt_bool_def)

text \<open>
  Claim C7, amended. A successful send action returns
  \<^verbatim>\<open>{success: true, message_id, chat_id, extra}\<close>; the extra field is \<^verbatim>\<open>date\<close> for
  send-text (the ISO form of the message date, or null when the message has none) and
  \<^verbatim>\<open>has_caption\<close>, the truth value of the caption argument, for send-photo and
  send-document. The successful payloads of get-bot-info, get-chat-info and
  get-webhook-info carry no \<^verbatim>\<open>success\<close> field. Fetch-updates answers an empty batch
  with \<^verbatim>\<open>{updates: [], count: 0}\<close>, and no answer of fetch-updates carries
  \<^verbatim>\<open>success = true\<close>.
\<close>

theorem success_payload_shapes:
  assumes "(if client self = None then initialize e self else Inr self) = Inr self1"
    and "client self1 = Some c"
  shows
    "(fst (send_message c b (get arguments ''text'') (get arguments ''chat_id'')
             (get_default arguments ''parse_mode'' (PStr ''Markdown''))
             (get_default arguments ''disable_notification'' (PBool False))) = Inr m
        \<longrightarrow> fst (call_tool e self b ''telegram_send_message'' arguments) =
             [TextContent (Json (PDict
                [(''success'', PBool True),
                 (''message_id'', PInt (m_message_id m)),
                 (''chat_id'', PInt (c_id (m_chat m))),
                 (''date'', case m_date m of None \<Rightarrow> PNone | Some d \<Rightarrow> PStr (isoformat d))]))])
   \<and> (fst (send_photo c b (get arguments ''photo_url'') (get arguments ''chat_id'')
             (get arguments ''caption'')
             (get_default arguments ''parse_mode'' (PStr ''Markdown''))) = Inr m
        \<longrightarrow> fst (call_tool e self b ''telegram_send_photo'' arguments) =
             [TextContent (Json (PDict
                [(''success'', PBool True),
                 (''message_id'', PInt (m_message_id m)),
                 (''chat_id'', PInt (c_id (m_chat m))),
                 (''has_caption'', PBool (truthy (get arguments ''caption'')))]))])
   \<and> (fst (send_document c b (get arguments ''document_url'') (get arguments ''chat_id'')
             (get arguments ''caption'') (PStr ''Markdown'')) = Inr m
        \<longrightarrow> fst (call_tool e self b ''telegram_send_document'' arguments) =
             [TextContent (Json (PDict
                [(''success'', PBool True),
                 (''message_id'', PInt (m_message_id m)),
                 (''chat_id'', PInt (c_id (m_chat m))),
                 (''has_caption'', PBool (truthy (get arguments ''caption'')))]))])
   \<and> (fst (get_updates c b (offset_arg self1) (get_default arguments ''limit'' (PInt 10))
             (get_default arguments ''timeout'' (PInt 0))) = Inr []
        \<longrightarrow> fst (call_tool e self b ''telegram_get_updates'' arguments) =
             [TextContent (Json (PDict [(''updates'', PList []), (''count'', PInt 0)]))])
   \<and> success_of (fst (call_tool e self b ''telegram_get_updates'' arguments))
        \<noteq> Some (PBool True)
   \<and> (fst (get_me c b) = Inr u
        \<longrightarrow> success_of (fst (call_tool e self b ''telegram_get_bot_info'' arguments)) = None)
   \<and> (fst (get_chat c b (get arguments ''chat_id'')) = Inr ch
        \<longrightarrow> success_of (fst (call_tool e self b ''telegram_get_chat_info'' arguments)) = None)
   \<and> (fst (get_webhook_info c b) = Inr w
        \<longrightarrow> success_of (fst (call_tool e self b ''telegram_get_webhook_info'' arguments)) = None)"
proof -
  note d = call_tool_dispatch [OF assms(1)]
  note c = assms(2)
  show ?thesis
    by (simp add: d
          srv_send_message_success [OF c] srv_send_photo_success [OF c]
          srv_send_document_success [OF c] srv_get_updates_empty [OF c]
          srv_get_updates_never_success_true [OF c]
          srv_get_bot_info_success(2) [OF c] srv_get_chat_info_success [OF c]
          srv_get_webhook_info_success(2) [OF c])
qed

text \<open>
  The amended C7 on a sent text, on get-bot-info and on a fetch of an empty batch.
\<close>

theorem success_payload_shapes_witness:
  "fst (call_tool env0 server0 bot_ok ''telegram_send_message'' [''text'' \<mapsto> PStr ''hi'']) =
     [TextContent (Json (PDict
        [(''success'', PBool True), (''message_id'', PInt 100), (''chat_id'', PInt 42),
         (''date'', PStr ''2024-01-01T00:00:00+00:00'')]))]
   \<and> success_of (fst (call_tool env0 server0 bot_ok ''telegram_get_bot_info''
                         [''text'' \<mapsto> PStr ''hi''])) = None
   \<and> fst (call_tool env0 server0 bot_ok ''telegram_get_updates'' [''text'' \<mapsto> PStr ''hi'']) =
       [TextContent (Json (PDict [(''updates'', PList []), (''count'', PInt 0)]))]"
proof -
  let ?c = "\<lparr>default_chat_id = PStr ''999''\<rparr>"
  let ?a = "[''text'' \<mapsto> PStr ''hi'']"
  have i: "(if client server0 = None then initialize env0 server0 else Inr server0) = Inr server0"
    by (simp add: server0_def)
  have c: "client server0 = Some ?c" by (simp add: server0_def)
  have s: "fst (send_message ?c bot_ok (get ?a ''text'') (get ?a ''chat_id'')
             (get_default ?a ''parse_mode'' (PStr ''Markdown''))
             (get_default ?a ''disable_notification'' (PBool False))) = Inr message0"
    by (simp add: send_message_def get_def get_default_def py_or_def parse_mode_enum_def
          upper_Markdown bot_ok_def Let_def)
  have g: "fst (get_me ?c bot_ok) = Inr user0"
    by (simp add: get_me_def bot_ok_def)
  have f: "fst (get_updates ?c bot_ok (offset_arg server0) (get_default ?a ''limit'' (PInt 10))
             (get_default ?a ''timeout'' (PInt 0))) = Inr []"
    by (simp add: get_updates_def bot_ok_def)
  from success_payload_shapes [OF i c, where b = bot_ok and arguments = ?a and m = message0
         and u = user0] s g f
  show ?thesis
    by (simp add: message0_def chat0_def)
qed

section \<open>Webhook results\<close>

text \<open>
  Claim C8, as stated, fails: the payload has a single flag, and it is the transport's
  boolean. When the transport returns \<open>False\<close> without raising, \<^verbatim>\<open>success\<close> is false
  although the call completed.
\<close>

theorem webhook_false_result_counterexample:
  "fst (call_tool env0 server0 (bot_ok\<lparr>bot_set_webhook := (\<lambda>url au. Inr False)\<rparr>)
          ''telegram_set_webhook'' [''url'' \<mapsto> PStr ''https://example.test/hook'']) =
     [TextContent (Json (PDict
        [(''success'', PBool False),
         (''webhook_url'', PStr ''https://example.test/hook''),
         (''message'', PStr ''Failed to set webhook'')]))]
   \<and> success_of (fst (call_tool env0 server0 (bot_ok\<lparr>bot_delete_webhook := Inr False\<rparr>)
          ''telegram_delete_webhook'' Map.empty)) = Some (PBool False)"
  by (simp add: call_tool_def server0_def srv_set_webhook_def set_webhook_def
        srv_delete_webhook_def delete_webhook_def get_def Let_def)

text \<open>
  Claim C8, amended. When the transport call of set-webhook or clear-webhook returns a
  boolean without raising, that boolean is the \<^verbatim>\<open>success\<close> field of the payload and
  also selects the message text; no separate flag records that the call completed.
\<close>

theorem webhook_result_is_success_flag:
  assumes "(if client self = None then initialize e self else Inr self) = Inr self1"
    and "client self1 = Some c"
  shows
    "(fst (set_webhook c b (get arguments ''url'') (get arguments ''allowed_updates'')) = Inr r
        \<longrightarrow> fst (call_tool e self b ''telegram_set_webhook'' arguments) =
             [TextContent (Json (PDict
                [(''success'', PBool r),
                 (''webhook_url'', get arguments ''url''),
                 (''message'', PStr (if r then ''Webhook set successfully''
                                     else ''Failed to set webhook''))]))])
   \<and> (fst (delete_webhook c b) = Inr r
        \<longrightarrow> fst (call_tool e self b ''telegram_delete_webhook'' arguments) =
             [TextContent (Json (PDict
                [(''success'', PBool r),
                 (''message'', PStr (if r then ''Webhook deleted successfully''
                                     else ''Failed to delete webhook''))]))])"
proof -
  note d = call_tool_dispatch [OF assms(1)]
  note c = assms(2)
  show ?thesis
    by (simp add: d srv_set_webhook_success [OF c] srv_delete_webhook_success [OF c])
qed

text \<open>
  The amended C8 with a transport that accepts both webhook operations.
\<close>

theorem webhook_result_is_success_flag_witness:
  "fst (call_tool env0 server0 bot_ok ''telegram_set_webhook''
          [''url'' \<mapsto> PStr ''https://example.test/hook'']) =
     [TextContent (Json (PDict
        [(''success'', PBool True),
         (''webhook_url'', PStr ''https://example.test/hook''),
         (''message'', PStr ''Webhook set successfully'')]))]
   \<and> fst (call_tool env0 server0 bot_ok ''telegram_delete_webhook''
          [''url'' \<mapsto> PStr ''https://example.test/hook'']) =
     [TextContent (Json (PDict
        [(''success'', PBool True),
         (''message'', PStr ''Webhook deleted successfully'')]))]"
proof -
  let ?c = "\<lparr>default_chat_id = PStr ''999''\<rparr>"
  let ?a = "[''url'' \<mapsto> PStr ''https://example.test/hook'']"
  have i: "(if client server0 = None then initialize env0 server0 else Inr server0) = Inr server0"
    by (simp add: server0_def)
  have c: "client server0 = Some ?c" by (simp add: server0_def)
  have s: "fst (set_webhook ?c bot_ok (get ?a ''url'') (get ?a ''allowed_updates'')) = Inr True"
    by (simp add: set_webhook_def bot_ok_def)
  have k: "fst (delete_webhook ?c bot_ok) = Inr True"
    by (simp add: delete_webhook_def bot_ok_def)
  from webhook_result_is_success_flag [OF i c, where b = bot_ok and arguments = ?a and r = True] s k
  show ?thesis
    by (simp add: get_def)
qed

section \<open>Chat information with a failing member count\<close>

text \<open>
  Claim C9, as stated, fails in one part: when the chat lookup succeeds and the member
  count raises, the payload is the seven chat fields only; it has no \<^verbatim>\<open>success\<close>
  field, so it does not carry \<^verbatim>\<open>success = true\<close>.
\<close>

theorem chat_info_partial_counterexample:
  "fst (call_tool env0 server0
          (bot_ok\<lparr>bot_get_chat_member_count := (\<lambda>cid. Inl (TransportError ''not a group''))\<rparr>)
          ''telegram_get_chat_info'' [''chat_id'' \<mapsto> PStr ''42'']) =
     [TextContent (Json (PDict
        [(''id'', PInt 42), (''type'', PStr ''private''), (''title'', PNone),
         (''username'', PStr ''ann''), (''first_name'', PStr ''Ann''),
         (''last_name'', PNone), (''description'', PNone)]))]
   \<and> success_of (fst (call_tool env0 server0
          (bot_ok\<lparr>bot_get_chat_member_count := (\<lambda>cid. Inl (TransportError ''not a group''))\<rparr>)
          ''telegram_get_chat_info'' [''chat_id'' \<mapsto> PStr ''42''])) \<noteq> Some (PBool True)"
  by (simp add: call_tool_def server0_def srv_get_chat_info_def get_chat_def
        get_chat_member_count_def get_def bot_ok_def chat0_def opt_str_def Let_def)

text \<open>
  Claim C9, amended. When the chat lookup succeeds and the member-count lookup raises,
  the action still answers with the chat: the payload holds exactly the seven primary
  fields, with no \<^verbatim>\<open>member_count\<close>, no \<^verbatim>\<open>error\<close> and no \<^verbatim>\<open>success\<close> field;
  the exception appears nowhere and the server state is unchanged.
\<close>

theorem chat_info_without_member_count:
  assumes "(if client self = None then initialize e self else Inr self) = Inr self1"
    and "client self1 = Some c"
    and "fst (get_chat c b (get arguments ''chat_id'')) = Inr ch"
    and "fst (get_chat_member_count c b (get arguments ''chat_id'')) = Inl x"
  shows
    "call_tool e self b ''telegram_get_chat_info'' arguments =
       ([TextContent (Json (PDict
           [(''id'', PInt (c_id ch)),
            (''type'', PStr (c_type ch)),
            (''title'', opt_str (c_title ch)),
            (''username'', opt_str (c_username ch)),
            (''first_name'', opt_str (c_first_name ch)),
            (''last_name'', opt_str (c_last_name ch)),
            (''description'', opt_str (c_description ch))]))],
        self1,
        [GetChat (get arguments ''chat_id''), GetChatMemberCount (get arguments ''chat_id'')])
     \<and> payload_keys (fst (call_tool e self b ''telegram_get_chat_info'' arguments)) =
         [''id'', ''type'', ''title'', ''username'', ''first_name'', ''last_name'',
          ''description'']
     \<and> success_of (fst (call_tool e self b ''telegram_get_chat_info'' arguments)) = None"
  unfolding call_tool_dispatch [OF assms(1)]
  by (simp add: srv_get_chat_info_partial [OF assms(2) assms(3) assms(4)])

text \<open>
  The amended C9 for a private chat, whose member count the transport refuses.
\<close>

theorem chat_info_without_member_count_witness:
  "payload_keys (fst (call_tool env0 server0
          (bot_ok\<lparr>bot_get_chat_member_count := (\<lambda>cid. Inl (TransportError ''not a group''))\<rparr>)
          ''telegram_get_chat_info'' [''chat_id'' \<mapsto> PStr ''42''])) =
     [''id'', ''type'', ''title'', ''username'', ''first_name'', ''last_name'', ''description'']"
proof -
  let ?c = "\<lparr>default_chat_id = PStr ''999''\<rparr>"
  let ?a = "[''chat_id'' \<mapsto> PStr ''42'']"
  let ?b = "bot_ok\<lparr>bot_get_chat_member_count := (\<lambda>cid. Inl (TransportError ''not a group''))\<rparr>"
  have i: "(if client server0 = None then initialize env0 server0 else Inr server0) = Inr server0"
    by (simp add: server0_def)
  have c: "client server0 = Some ?c" by (simp add: server0_def)
  have p: "fst (get_chat ?c ?b (get ?a ''chat_id'')) = Inr chat0"
    by (simp add: get_chat_def bot_ok_def)
  have q: "fst (get_chat_member_count ?c ?b (get ?a ''chat_id'')) = Inl (TransportError ''not a group'')"
    by (simp add: get_chat_member_count_def)
  from chat_info_without_member_count [OF i c p q]
  show ?thesis by blast
qed

end
